theory Spec2Isabelle
  imports Main
begin

section \<open>Go values\<close>

text \<open>
  A Go string is a sequence of bytes: \<^typ>\<open>string\<close>. A Go \<open>error\<close> is identified by its
  message. A function that returns \<open>(T, error)\<close> returns the pair, the error being
  \<open>None\<close> for \<open>nil\<close>; a run-time panic is a result of its own.
\<close>

datatype error = GoError string

datatype panic = NilDereference | SliceBoundsOutOfRange

datatype 'a go = Panic panic | Return 'a

text \<open>
  The slice expression \<open>s[lo:hi]\<close> on a string: Go panics unless
  \<open>0 \<le> lo \<le> hi \<le> len(s)\<close>; the indices are of type \<open>int\<close>.
\<close>

definition go_slice :: "string \<Rightarrow> int \<Rightarrow> int \<Rightarrow> string option" where
  "go_slice s lo hi =
     (if 0 \<le> lo \<and> lo \<le> hi \<and> hi \<le> int (length s)
      then Some (take (nat hi - nat lo) (drop (nat lo) s))
      else None)"

subsection \<open>net/url\<close>

text \<open>The fields of \<open>url.URL\<close>. The code reads \<open>Path\<close> and writes \<open>RawQuery\<close>.\<close>

record URL =
  Scheme :: string
  Opaque :: string
  User :: "(string \<times> string option) option"
  Host :: string
  Path :: string
  RawPath :: string
  OmitHost :: bool
  ForceQuery :: bool
  RawQuery :: string
  Fragment :: string
  RawFragment :: string

text \<open>A \<open>*url.URL\<close>: \<open>nil\<close>, or the address of a URL object in the store.\<close>

datatype ptr = NilPtr | Ref nat

text \<open>\<open>url.Values\<close> is \<open>map[string][]string\<close>; \<open>Add\<close> appends to the key's slice.\<close>

type_synonym Values = "string \<rightharpoonup> string list"

definition Values_Add :: "string \<Rightarrow> string \<Rightarrow> Values \<Rightarrow> Values" where
  "Values_Add key val v = v(key \<mapsto> (case v key of None \<Rightarrow> [] | Some vs \<Rightarrow> vs) @ [val])"

subsection \<open>net/http\<close>

text \<open>
  An outgoing request, as \<open>http.NewRequest\<close> makes it: the method, the URL string it was
  made from, and the header fields added to it, in order.
\<close>

record request =
  Method :: string
  Target :: string
  Header :: "(string \<times> string) list"

definition Header_Add :: "string \<Rightarrow> string \<Rightarrow> request \<Rightarrow> request" where
  "Header_Add key val r = r\<lparr>Header := Header r @ [(key, val)]\<rparr>"

text \<open>
  A response: its status code, and what \<open>io.ReadAll(resp.Body)\<close> returns, the bytes read
  and the error (if any) that stopped the reading.
\<close>

record response =
  StatusCode :: int
  Body :: "string \<times> error option"

definition StatusOK :: int where
  "StatusOK = 200"

definition StatusNotFound :: int where
  "StatusNotFound = 404"

subsection \<open>The package's own types\<close>

text \<open>
  Modelled from the spec: the declaration of \<open>AuthenticationResponse\<close> is not among the
  source files. The spec's data model gives it a principal identifier and an optional
  mapping from attribute name to an ordered sequence of string values; the source sets
  the field \<open>User\<close> and leaves every other field at its zero value.
\<close>

record AuthenticationResponse =
  User :: string
  Attributes :: "(string \<times> string list) list option"

text \<open>
  What the functions of the standard library and of this package that the two source
  files call, and that are not among them, compute. They are parameters of the model:
  \<^item> \<open>path_Join\<close> is \<open>path.Join\<close>;
  \<^item> \<open>url_Parse base ref\<close> is the value of the URL that \<open>base.Parse(ref)\<close> returns;
  \<^item> \<open>url_ParseQuery\<close> is what \<open>u.Query()\<close> computes from \<open>u.RawQuery\<close>;
  \<^item> \<open>values_Encode\<close> is \<open>Values.Encode\<close>, \<open>url_String\<close> is \<open>(*URL).String\<close>;
  \<^item> \<open>sanitisedURLString\<close> is the package's rendering of a service URL, taken as
    a function of the URL's value that reads its argument only; called with \<open>nil\<close>
    it is taken to panic;
  \<^item> \<open>newRequest_error\<close> is the error, if any, of \<open>http.NewRequest\<close> for a method and
    a URL string;
  \<^item> \<open>ParseServiceResponse\<close> is the package's parser of CAS2 response bodies;
  \<^item> \<open>parseBasicAuth\<close> decodes the value of an \<open>Authorization\<close> header.
\<close>

record env =
  path_Join :: "string list \<Rightarrow> string"
  url_Parse :: "URL \<Rightarrow> string \<Rightarrow> error + URL"
  url_ParseQuery :: "string \<Rightarrow> Values"
  values_Encode :: "Values \<Rightarrow> string"
  url_String :: "URL \<Rightarrow> string"
  sanitisedURLString :: "URL \<Rightarrow> string"
  newRequest_error :: "string \<Rightarrow> string \<Rightarrow> error option"
  ParseServiceResponse :: "string \<Rightarrow> AuthenticationResponse option \<times> error option"
  parseBasicAuth :: "string \<Rightarrow> string \<times> string \<times> bool"

section \<open>The state the validator works on\<close>

text \<open>
  The store of URL objects (\<open>Ref a\<close> is the object at index \<open>a\<close>), the requests handed to
  the HTTP client so far, and the bodies handed to the response parser so far. The
  calls of \<open>slog\<close> and the closing of response bodies are not part of the model.
\<close>

record net =
  urls :: "URL list"
  sent :: "request list"
  parsed :: "string list"

definition deref :: "net \<Rightarrow> ptr \<Rightarrow> URL option" where
  "deref s p = (case p of NilPtr \<Rightarrow> None
                | Ref a \<Rightarrow> if a < length (urls s) then Some (urls s ! a) else None)"

text \<open>A new URL object is placed at the first unused address.\<close>

definition new_URL :: "URL \<Rightarrow> net \<Rightarrow> ptr \<times> net" where
  "new_URL u s = (Ref (length (urls s)), s\<lparr>urls := urls s @ [u]\<rparr>)"

definition set_RawQuery :: "ptr \<Rightarrow> string \<Rightarrow> net \<Rightarrow> net go" where
  "set_RawQuery p q s =
     (case p of NilPtr \<Rightarrow> Panic NilDereference
      | Ref a \<Rightarrow> if a < length (urls s)
                 then Return (s\<lparr>urls := (urls s)[a := (urls s ! a)\<lparr>RawQuery := q\<rparr>]\<rparr>)
                 else Panic NilDereference)"

text \<open>
  The validator: its HTTP client and the address of its CAS URL. The client answers a
  request, given the requests sent before it, with an error or a response.
\<close>

record ServiceTicketValidator =
  client :: "request list \<Rightarrow> request \<Rightarrow> error + response"
  casURL :: ptr

definition http_NewRequest :: "env \<Rightarrow> string \<Rightarrow> string \<Rightarrow> error + request" where
  "http_NewRequest E m u =
     (case newRequest_error E m u of
        Some err \<Rightarrow> Inl err
      | None \<Rightarrow> Inr \<lparr>Method = m, Target = u, Header = []\<rparr>)"

definition client_Do :: "ServiceTicketValidator \<Rightarrow> request \<Rightarrow> net \<Rightarrow> (error + response) \<times> net" where
  "client_Do v r s = (client v (sent s) r, s\<lparr>sent := sent s @ [r]\<rparr>)"

definition call_ParseServiceResponse ::
  "env \<Rightarrow> string \<Rightarrow> net \<Rightarrow> (AuthenticationResponse option \<times> error option) \<times> net" where
  "call_ParseServiceResponse E body s =
     (ParseServiceResponse E body, s\<lparr>parsed := parsed s @ [body]\<rparr>)"

section \<open>service\_validate.go\<close>

definition ServiceValidateUrl ::
  "env \<Rightarrow> ServiceTicketValidator \<Rightarrow> ptr \<Rightarrow> string \<Rightarrow> net \<Rightarrow> (string \<times> error option) go \<times> net" where
  "ServiceValidateUrl E v serviceURL ticket s =
     (case deref s (casURL v) of
        None \<Rightarrow> (Panic NilDereference, s)
      | Some base \<Rightarrow>
         (case url_Parse E base (path_Join E [Path base, ''serviceValidate'']) of
            Inl err \<Rightarrow> (Return ('''', Some err), s)
          | Inr resolved \<Rightarrow>
             (case new_URL resolved s of
                (u, s1) \<Rightarrow>
                 (case deref s1 u of
                    None \<Rightarrow> (Panic NilDereference, s1)
                  | Some u0 \<Rightarrow>
                     (case deref s1 serviceURL of
                        None \<Rightarrow> (Panic NilDereference, s1)
                      | Some svc \<Rightarrow>
                         (case set_RawQuery u
                                 (values_Encode E
                                    (Values_Add ''ticket'' ticket
                                       (Values_Add ''service'' (sanitisedURLString E svc)
                                          (url_ParseQuery E (RawQuery u0))))) s1 of
                            Panic p \<Rightarrow> (Panic p, s1)
                          | Return s2 \<Rightarrow>
                             (case deref s2 u of
                                None \<Rightarrow> (Panic NilDereference, s2)
                              | Some u1 \<Rightarrow> (Return (url_String E u1, None), s2))))))))"

definition ValidateUrl ::
  "env \<Rightarrow> ServiceTicketValidator \<Rightarrow> ptr \<Rightarrow> string \<Rightarrow> net \<Rightarrow> (string \<times> error option) go \<times> net" where
  "ValidateUrl E v serviceURL ticket s =
     (case deref s (casURL v) of
        None \<Rightarrow> (Panic NilDereference, s)
      | Some base \<Rightarrow>
         (case url_Parse E base (path_Join E [Path base, ''validate'']) of
            Inl err \<Rightarrow> (Return ('''', Some err), s)
          | Inr resolved \<Rightarrow>
             (case new_URL resolved s of
                (u, s1) \<Rightarrow>
                 (case deref s1 u of
                    None \<Rightarrow> (Panic NilDereference, s1)
                  | Some u0 \<Rightarrow>
                     (case deref s1 serviceURL of
                        None \<Rightarrow> (Panic NilDereference, s1)
                      | Some svc \<Rightarrow>
                         (case set_RawQuery u
                                 (values_Encode E
                                    (Values_Add ''ticket'' ticket
                                       (Values_Add ''service'' (sanitisedURLString E svc)
                                          (url_ParseQuery E (RawQuery u0))))) s1 of
                            Panic p \<Rightarrow> (Panic p, s1)
                          | Return s2 \<Rightarrow>
                             (case deref s2 u of
                                None \<Rightarrow> (Panic NilDereference, s2)
                              | Some u1 \<Rightarrow> (Return (url_String E u1, None), s2))))))))"

text \<open>
  The part of \<open>validateTicketCas1\<close> after the body has been read: the status check, the
  comparison with the negative marker and the slice \<open>body[4 : len(body)-1]\<close>.
\<close>

definition cas1_result ::
  "int \<Rightarrow> string \<Rightarrow> (AuthenticationResponse option \<times> error option) go" where
  "cas1_result status body =
     (if status \<noteq> StatusOK
      then Return (None, Some (GoError (''cas: validate ticket: '' @ body)))
      else if body = ''no\<newline>\<newline>''
      then Return (None, None)
      else (case go_slice body 4 (int (length body) - 1) of
              None \<Rightarrow> Panic SliceBoundsOutOfRange
            | Some user \<Rightarrow> Return (Some \<lparr>User = user, Attributes = None\<rparr>, None)))"

definition validateTicketCas1 ::
  "env \<Rightarrow> ServiceTicketValidator \<Rightarrow> ptr \<Rightarrow> string \<Rightarrow> net
     \<Rightarrow> (AuthenticationResponse option \<times> error option) go \<times> net" where
  "validateTicketCas1 E v serviceURL ticket s =
     (case ValidateUrl E v serviceURL ticket s of
        (Panic p, s1) \<Rightarrow> (Panic p, s1)
      | (Return (u, Some err), s1) \<Rightarrow> (Return (None, Some err), s1)
      | (Return (u, None), s1) \<Rightarrow>
         (case http_NewRequest E ''GET'' u of
            Inl err \<Rightarrow> (Return (None, Some err), s1)
          | Inr r0 \<Rightarrow>
             (case client_Do v (Header_Add ''User-Agent'' ''Golang CAS client gopkg.in/cas'' r0) s1 of
                (Inl err, s2) \<Rightarrow> (Return (None, Some err), s2)
              | (Inr resp, s2) \<Rightarrow>
                 (case Body resp of
                    (data, Some err) \<Rightarrow> (Return (None, Some err), s2)
                  | (data, None) \<Rightarrow> (cas1_result (StatusCode resp) data, s2)))))"

definition ValidateTicket ::
  "env \<Rightarrow> ServiceTicketValidator \<Rightarrow> ptr \<Rightarrow> string \<Rightarrow> net
     \<Rightarrow> (AuthenticationResponse option \<times> error option) go \<times> net" where
  "ValidateTicket E v serviceURL ticket s =
     (case ServiceValidateUrl E v serviceURL ticket s of
        (Panic p, s1) \<Rightarrow> (Panic p, s1)
      | (Return (u, Some err), s1) \<Rightarrow> (Return (None, Some err), s1)
      | (Return (u, None), s1) \<Rightarrow>
         (case http_NewRequest E ''GET'' u of
            Inl err \<Rightarrow> (Return (None, Some err), s1)
          | Inr r0 \<Rightarrow>
             (case client_Do v (Header_Add ''User-Agent'' ''Golang CAS client gopkg.in/cas'' r0) s1 of
                (Inl err, s2) \<Rightarrow> (Return (None, Some err), s2)
              | (Inr resp, s2) \<Rightarrow>
                 if StatusCode resp = StatusNotFound
                 then validateTicketCas1 E v serviceURL ticket s2
                 else (case Body resp of
                         (body, Some err) \<Rightarrow> (Return (None, Some err), s2)
                       | (body, None) \<Rightarrow>
                          if StatusCode resp \<noteq> StatusOK
                          then (Return (None, Some (GoError (''cas: validate ticket: '' @ body))), s2)
                          else (case call_ParseServiceResponse E body s2 of
                                  ((success, Some err), s3) \<Rightarrow> (Return (None, Some err), s3)
                                | ((success, None), s3) \<Rightarrow> (Return (success, None), s3))))))"

section \<open>rest\_handler.go\<close>

text \<open>
  An inbound request: its method and URL, the value of its \<open>Authorization\<close> header (empty
  when the header is absent), and the value attached to its context under the package's
  key (\<open>None\<close> when nothing is attached, \<open>Some a\<close> for the pointer \<open>a\<close>, which may be
  \<open>nil\<close>).
\<close>

record Request =
  ReqMethod :: string
  ReqURL :: string
  Authorization :: string
  Context :: "AuthenticationResponse option option"

text \<open>\<open>(*http.Request).BasicAuth\<close>.\<close>

definition BasicAuth :: "env \<Rightarrow> Request \<Rightarrow> string \<times> string \<times> bool" where
  "BasicAuth E r =
     (if Authorization r = '''' then ('''', '''', False)
      else parseBasicAuth E (Authorization r))"

text \<open>
  Modelled from the spec: \<open>setAuthenticationResponse\<close> is not among the source files. The
  spec has the handler attach the AuthenticationResponse to the request's context.
\<close>

definition setAuthenticationResponse :: "Request \<Rightarrow> AuthenticationResponse option \<Rightarrow> Request" where
  "setAuthenticationResponse r a = r\<lparr>Context := Some a\<rparr>"

text \<open>
  The three methods of \<open>RestClient\<close> that the handler calls; they are not among the source
  files and are parameters. Each works on the validator's state.
\<close>

record RestClient =
  RequestGrantingTicket :: "string \<Rightarrow> string \<Rightarrow> net \<Rightarrow> (string \<times> error option) go \<times> net"
  RequestServiceTicket :: "string \<Rightarrow> net \<Rightarrow> (string \<times> error option) go \<times> net"
  ValidateServiceTicket ::
    "string \<Rightarrow> net \<Rightarrow> (AuthenticationResponse option \<times> error option) go \<times> net"

text \<open>
  The handler: its client \<open>c\<close> and the wrapped handler \<open>h\<close>, which answers a request with
  the calls it makes on the response writer.
\<close>

datatype stage =
  GrantingTicketStage string string | ServiceTicketStage string | ValidationStage string

datatype writer_call = HeaderSet string string | WriteHeaderCall int

record restClientHandler =
  handler_c :: RestClient
  handler_h :: "Request \<Rightarrow> writer_call list"

text \<open>
  What a call of \<open>ServeHTTP\<close> works on: the validator's state, the stages of the chain
  called so far, the calls made on the response writer so far, and the requests handed
  to the wrapped handler so far.
\<close>

record world =
  network :: net
  stages :: "stage list"
  written :: "writer_call list"
  delegated :: "Request list"

definition challenge :: string where
  \<open>challenge = ''Basic realm="CAS Protected Area"''\<close>

definition respond_401 :: "world \<Rightarrow> world" where
  "respond_401 w =
     w\<lparr>written := written w @ [HeaderSet ''WWW-Authenticate'' challenge, WriteHeaderCall 401]\<rparr>"

definition serve_wrapped :: "restClientHandler \<Rightarrow> Request \<Rightarrow> world \<Rightarrow> world" where
  "serve_wrapped ch r w =
     w\<lparr>written := written w @ handler_h ch r, delegated := delegated w @ [r]\<rparr>"

definition call_RequestGrantingTicket ::
  "restClientHandler \<Rightarrow> string \<Rightarrow> string \<Rightarrow> world \<Rightarrow> (string \<times> error option) go \<times> world" where
  "call_RequestGrantingTicket ch username password w =
     (case RequestGrantingTicket (handler_c ch) username password (network w) of
        (res, n) \<Rightarrow>
          (res, w\<lparr>network := n, stages := stages w @ [GrantingTicketStage username password]\<rparr>))"

definition call_RequestServiceTicket ::
  "restClientHandler \<Rightarrow> string \<Rightarrow> world \<Rightarrow> (string \<times> error option) go \<times> world" where
  "call_RequestServiceTicket ch tgt w =
     (case RequestServiceTicket (handler_c ch) tgt (network w) of
        (res, n) \<Rightarrow> (res, w\<lparr>network := n, stages := stages w @ [ServiceTicketStage tgt]\<rparr>))"

definition call_ValidateServiceTicket ::
  "restClientHandler \<Rightarrow> string \<Rightarrow> world
     \<Rightarrow> (AuthenticationResponse option \<times> error option) go \<times> world" where
  "call_ValidateServiceTicket ch st w =
     (case ValidateServiceTicket (handler_c ch) st (network w) of
        (res, n) \<Rightarrow> (res, w\<lparr>network := n, stages := stages w @ [ValidationStage st]\<rparr>))"

definition authenticate ::
  "restClientHandler \<Rightarrow> string \<Rightarrow> string \<Rightarrow> world
     \<Rightarrow> (AuthenticationResponse option \<times> error option) go \<times> world" where
  "authenticate ch username password w =
     (case call_RequestGrantingTicket ch username password w of
        (Panic p, w1) \<Rightarrow> (Panic p, w1)
      | (Return (tgt, Some err), w1) \<Rightarrow> (Return (None, Some err), w1)
      | (Return (tgt, None), w1) \<Rightarrow>
         (case call_RequestServiceTicket ch tgt w1 of
            (Panic p, w2) \<Rightarrow> (Panic p, w2)
          | (Return (st, Some err), w2) \<Rightarrow> (Return (None, Some err), w2)
          | (Return (st, None), w2) \<Rightarrow> call_ValidateServiceTicket ch st w2))"

definition ServeHTTP :: "env \<Rightarrow> restClientHandler \<Rightarrow> Request \<Rightarrow> world \<Rightarrow> unit go \<times> world" where
  "ServeHTTP E ch r w =
     (case BasicAuth E r of
        (username, password, ok) \<Rightarrow>
          if \<not> ok then (Return (), respond_401 w)
          else (case authenticate ch username password w of
                  (Panic p, w1) \<Rightarrow> (Panic p, w1)
                | (Return (success, Some err), w1) \<Rightarrow> (Return (), respond_401 w1)
                | (Return (success, None), w1) \<Rightarrow>
                    (Return (), serve_wrapped ch (setAuthenticationResponse r success) w1)))"

section \<open>A test double\<close>

text \<open>
  Concrete values for the parameters, on which the theorems below are run: a URL
  library that joins with a slash, resolves a reference by replacing the path and
  clearing the query, and renders scheme, host, path and query; a CAS server whose
  \<open>serviceValidate\<close> endpoint is not found and whose \<open>validate\<close> endpoint answers with
  a given status and body.
\<close>

definition double_Encode :: "Values \<Rightarrow> string" where
  "double_Encode q =
     ''service='' @ concat (case q ''service'' of None \<Rightarrow> [] | Some vs \<Rightarrow> vs)
       @ ''&ticket='' @ concat (case q ''ticket'' of None \<Rightarrow> [] | Some vs \<Rightarrow> vs)"

definition double_env :: env where
  "double_env =
     \<lparr>path_Join = (\<lambda>xs. case xs of [a, b] \<Rightarrow> a @ ''/'' @ b | _ \<Rightarrow> concat xs),
      url_Parse = (\<lambda>base ref. Inr (base\<lparr>Path := ref, RawQuery := ''''\<rparr>)),
      url_ParseQuery = (\<lambda>_. Map.empty),
      values_Encode = double_Encode,
      url_String = (\<lambda>u. Scheme u @ ''://'' @ Host u @ Path u @ ''?'' @ RawQuery u),
      sanitisedURLString = (\<lambda>u. Scheme u @ ''://'' @ Host u @ Path u),
      newRequest_error = (\<lambda>_ _. None),
      ParseServiceResponse = (\<lambda>_. (None, Some (GoError ''cas: parser''))),
      parseBasicAuth = (\<lambda>a. if a = ''Basic YWxpY2U6c2VjcmV0'' then (''alice'', ''secret'', True)
                             else ('''', '''', False))\<rparr>"

definition plain_URL :: "string \<Rightarrow> string \<Rightarrow> URL" where
  "plain_URL host p =
     \<lparr>Scheme = ''https'', Opaque = '''', User = None, Host = host, Path = p, RawPath = '''',
      OmitHost = False, ForceQuery = False, RawQuery = '''', Fragment = '''', RawFragment = ''''\<rparr>"

text \<open>The store holds the CAS URL at address 0 and the service URL at address 1.\<close>

definition double_net :: net where
  "double_net =
     \<lparr>urls = [plain_URL ''cas.example'' ''/cas'', plain_URL ''app.example'' ''/home''],
      sent = [], parsed = []\<rparr>"

definition double_validator :: "int \<Rightarrow> int \<Rightarrow> string \<Rightarrow> ServiceTicketValidator" where
  "double_validator status2 status1 body =
     \<lparr>client = (\<lambda>hist r. if hist = []
                  then Inr \<lparr>StatusCode = status2, Body = (body, None)\<rparr>
                  else Inr \<lparr>StatusCode = status1, Body = (body, None)\<rparr>),
      casURL = Ref 0\<rparr>"

text \<open>
  A client whose first two stages succeed and whose validation is \<open>ValidateTicket\<close> against
  the CAS server above, a wrapped handler that answers 200, an inbound request with a
  given \<open>Authorization\<close> header, and the state before the request is served.
\<close>

definition double_client :: "string \<Rightarrow> RestClient" where
  "double_client body =
     \<lparr>RequestGrantingTicket = (\<lambda>username password n. (Return (''TGT-1'', None), n)),
      RequestServiceTicket = (\<lambda>tgt n. (Return (''ST-1'', None), n)),
      ValidateServiceTicket = ValidateTicket double_env (double_validator 404 200 body) (Ref 1)\<rparr>"

definition double_handler :: "string \<Rightarrow> restClientHandler" where
  "double_handler body =
     \<lparr>handler_c = double_client body, handler_h = (\<lambda>r. [WriteHeaderCall 200])\<rparr>"

definition double_request :: "string \<Rightarrow> Request" where
  "double_request auth =
     \<lparr>ReqMethod = ''GET'', ReqURL = ''/home'', Authorization = auth, Context = None\<rparr>"

definition double_world :: world where
  "double_world = \<lparr>network = double_net, stages = [], written = [], delegated = []\<rparr>"

text \<open>
  A second URL library, which treats a reference with a question mark as Go's does:
  \<open>Parse\<close> cuts the reference at the first \<open>?\<close> into path and query, \<open>ParseQuery\<close>
  reads one \<open>key=value\<close> pair, \<open>Encode\<close> writes the keys \<open>service\<close>, \<open>ticket\<close> and \<open>x\<close>
  in their sorted order and escapes \<open>:\<close> and \<open>/\<close> as \<open>url.QueryEscape\<close> does, and
  \<open>String\<close> leaves the question mark out when the query is empty. The store below
  holds a CAS URL parsed from \<open>https://cas.example/cas%3Fx=1\<close>, whose path is
  \<open>/cas?x=1\<close>.
\<close>

definition cut_escape :: "string \<Rightarrow> string" where
  "cut_escape s =
     concat (map (\<lambda>c. if c = CHR '':'' then ''%3A'' else if c = CHR ''/'' then ''%2F'' else [c]) s)"

fun join_amp :: "string list \<Rightarrow> string" where
  "join_amp [] = []"
| "join_amp [x] = x"
| "join_amp (x # y # ys) = x @ ''&'' @ join_amp (y # ys)"

definition query_pairs :: "Values \<Rightarrow> string \<Rightarrow> string list" where
  "query_pairs q k =
     map (\<lambda>v. k @ ''='' @ cut_escape v) (case q k of None \<Rightarrow> [] | Some vs \<Rightarrow> vs)"

definition cut_env :: env where
  "cut_env =
     double_env
       \<lparr>url_Parse := (\<lambda>base ref.
          Inr (base\<lparr>Path := takeWhile (\<lambda>c. c \<noteq> CHR ''?'') ref, RawPath := '''',
                     RawQuery := drop 1 (dropWhile (\<lambda>c. c \<noteq> CHR ''?'') ref)\<rparr>)),
        url_ParseQuery := (\<lambda>raw.
          if raw = '''' then Map.empty
          else [takeWhile (\<lambda>c. c \<noteq> CHR ''='') raw \<mapsto> [drop 1 (dropWhile (\<lambda>c. c \<noteq> CHR ''='') raw)]]),
        values_Encode := (\<lambda>q.
          join_amp (query_pairs q ''service'' @ query_pairs q ''ticket'' @ query_pairs q ''x'')),
        url_String := (\<lambda>u.
          Scheme u @ ''://'' @ Host u @ Path u @ (if RawQuery u = '''' then '''' else ''?'' @ RawQuery u))\<rparr>"

definition cut_net :: net where
  "cut_net =
     \<lparr>urls = [plain_URL ''cas.example'' ''/cas?x=1'', plain_URL ''app.example'' ''/home''],
      sent = [], parsed = []\<rparr>"

section \<open>Pointers of the program\<close>

text \<open>
  A pointer that the program can hold in state \<open>s\<close> is \<open>nil\<close> or the address of an object
  of the store.
\<close>

definition allocated :: "net \<Rightarrow> ptr \<Rightarrow> bool" where
  "allocated s p = (case p of NilPtr \<Rightarrow> True | Ref a \<Rightarrow> a < length (urls s))"

section \<open>The test double, evaluated\<close>

lemma double_ValidateUrl:
  "ValidateUrl double_env (double_validator a b body) (Ref 1) ''ST-1'' double_net =
     (Return (''https://cas.example/cas/validate?service=https://app.example/home&ticket=ST-1'', None),
      double_net\<lparr>urls := urls double_net @ [(plain_URL ''cas.example'' ''/cas/validate'')
           \<lparr>RawQuery := ''service=https://app.example/home&ticket=ST-1''\<rparr>]\<rparr>)"
  by (simp add: ValidateUrl_def double_env_def double_validator_def double_net_def deref_def
      new_URL_def set_RawQuery_def Values_Add_def double_Encode_def plain_URL_def)

lemma double_NewRequest:
  "http_NewRequest double_env m u = Inr \<lparr>Method = m, Target = u, Header = []\<rparr>"
  by (simp add: http_NewRequest_def double_env_def)

lemma double_ServiceValidateUrl:
  "ServiceValidateUrl double_env (double_validator a b body) (Ref 1) ''ST-1'' double_net =
     (Return (''https://cas.example/cas/serviceValidate?service=https://app.example/home&ticket=ST-1'', None),
      double_net\<lparr>urls := urls double_net @ [(plain_URL ''cas.example'' ''/cas/serviceValidate'')
           \<lparr>RawQuery := ''service=https://app.example/home&ticket=ST-1''\<rparr>]\<rparr>)"
  by (simp add: ServiceValidateUrl_def double_env_def double_validator_def double_net_def deref_def
      new_URL_def set_RawQuery_def Values_Add_def double_Encode_def plain_URL_def)

lemma double_ValidateUrl_later:
  "ValidateUrl double_env (double_validator a b body) (Ref 1) ''ST-1''
     (double_net\<lparr>urls := urls double_net @ [x], sent := ss\<rparr>) =
     (Return (''https://cas.example/cas/validate?service=https://app.example/home&ticket=ST-1'', None),
      double_net\<lparr>urls := urls double_net @ [x, (plain_URL ''cas.example'' ''/cas/validate'')
           \<lparr>RawQuery := ''service=https://app.example/home&ticket=ST-1''\<rparr>], sent := ss\<rparr>)"
  by (simp add: ValidateUrl_def double_env_def double_validator_def double_net_def deref_def
      new_URL_def set_RawQuery_def Values_Add_def double_Encode_def plain_URL_def)

lemma double_client_cas1:
  "client (double_validator a b body)
     (sent (double_net\<lparr>urls := us\<rparr>)) r = Inr \<lparr>StatusCode = a, Body = (body, None)\<rparr>"
  by (simp add: double_validator_def double_net_def)

section \<open>The CAS1 fallback\<close>

text \<open>
  Once the CAS1 URL is built, the request made and answered, and the body read, the
  result of \<open>validateTicketCas1\<close> is decided by the status and the body alone.
\<close>

lemma cas1_reached:
  assumes "ValidateUrl E v serviceURL ticket s = (Return (u, None), s1)"
    and "http_NewRequest E ''GET'' u = Inr r0"
    and "client v (sent s1) (Header_Add ''User-Agent'' ''Golang CAS client gopkg.in/cas'' r0) = Inr resp"
    and "Body resp = (body, None)"
  shows "validateTicketCas1 E v serviceURL ticket s =
           (cas1_result (StatusCode resp) body,
            s1\<lparr>sent := sent s1 @ [Header_Add ''User-Agent'' ''Golang CAS client gopkg.in/cas'' r0]\<rparr>)"
  using assms by (simp add: validateTicketCas1_def client_Do_def)

lemma go_slice_body:
  "5 \<le> length body \<Longrightarrow>
     go_slice body 4 (int (length body) - 1) = Some (take (length body - 5) (drop 4 body))"
  by (simp add: go_slice_def nat_diff_distrib')

lemma cas1_result_long:
  assumes "5 \<le> length body"
  shows "cas1_result 200 body =
           Return (Some \<lparr>User = take (length body - 5) (drop 4 body), Attributes = None\<rparr>, None)"
proof -
  have "body \<noteq> ''no\<newline>\<newline>''" using assms by auto
  then show ?thesis using assms by (simp add: cas1_result_def StatusOK_def go_slice_body)
qed

lemma cas1_result_short:
  assumes "length body < 5" and "body \<noteq> ''no\<newline>\<newline>''"
  shows "cas1_result 200 body = Panic SliceBoundsOutOfRange"
  using assms by (simp add: cas1_result_def StatusOK_def go_slice_def)

text \<open>
  Claim C4. In the CAS1 fallback, a response with status 200 whose body is exactly
  \<open>"no\n\n"\<close> makes \<open>validateTicketCas1\<close> return neither an AuthenticationResponse
  nor an error, and that result is different from every result that carries an error.
\<close>

theorem cas1_negative_marker:
  assumes "ValidateUrl E v serviceURL ticket s = (Return (u, None), s1)"
    and "http_NewRequest E ''GET'' u = Inr r0"
    and "client v (sent s1) (Header_Add ''User-Agent'' ''Golang CAS client gopkg.in/cas'' r0) = Inr resp"
    and "StatusCode resp = 200"
    and "Body resp = (''no\<newline>\<newline>'', None)"
  shows "fst (validateTicketCas1 E v serviceURL ticket s) = Return (None, None)
         \<and> (\<forall>a err. fst (validateTicketCas1 E v serviceURL ticket s) \<noteq> Return (a, Some err))"
  using cas1_reached [OF assms(1,2,3,5)] assms(4)
  by (simp add: cas1_result_def StatusOK_def)

theorem cas1_negative_marker_witness:
  "fst (validateTicketCas1 double_env (double_validator 200 200 ''no\<newline>\<newline>'') (Ref 1) ''ST-1''
          double_net) = Return (None, None)"
  using cas1_negative_marker [OF double_ValidateUrl double_NewRequest double_client_cas1]
  by simp

lemma cas1_short_bodies_panic:
  assumes "ValidateUrl E v serviceURL ticket s = (Return (u, None), s1)"
    and "http_NewRequest E ''GET'' u = Inr r0"
    and "client v (sent s1) (Header_Add ''User-Agent'' ''Golang CAS client gopkg.in/cas'' r0) = Inr resp"
    and "StatusCode resp = 200"
    and "Body resp = (body, None)"
    and "length body < 5" and "body \<noteq> ''no\<newline>\<newline>''"
  shows "fst (validateTicketCas1 E v serviceURL ticket s) = Panic SliceBoundsOutOfRange"
  using cas1_reached [OF assms(1,2,3,5)] assms(4,6,7)
  by (simp add: cas1_result_short)

lemma go_slice_positive:
  "go_slice (''yes\<newline>'' @ name @ ''\<newline>'') 4
     (int (length (''yes\<newline>'' @ name @ ''\<newline>'')) - 1) = Some name"
  by (simp add: go_slice_def)

text \<open>
  Claim C5. In the CAS1 fallback, a response with status 200 whose body is
  \<open>"yes\n<name>\n"\<close>, in particular \<open>"yes\nalice\n"\<close>, yields an
  AuthenticationResponse whose \<open>User\<close> is the name and which has no attributes; the name
  is the slice of the body from index 4 to its length less one.
\<close>

theorem cas1_positive_marker:
  assumes "ValidateUrl E v serviceURL ticket s = (Return (u, None), s1)"
    and "http_NewRequest E ''GET'' u = Inr r0"
    and "client v (sent s1) (Header_Add ''User-Agent'' ''Golang CAS client gopkg.in/cas'' r0) = Inr resp"
    and "StatusCode resp = 200"
    and "Body resp = (''yes\<newline>'' @ name @ ''\<newline>'', None)"
  shows "fst (validateTicketCas1 E v serviceURL ticket s) =
           Return (Some \<lparr>User = name, Attributes = None\<rparr>, None)
         \<and> go_slice (''yes\<newline>'' @ name @ ''\<newline>'') 4
              (int (length (''yes\<newline>'' @ name @ ''\<newline>'')) - 1) = Some name"
proof
  show "fst (validateTicketCas1 E v serviceURL ticket s) =
           Return (Some \<lparr>User = name, Attributes = None\<rparr>, None)"
    using cas1_reached [OF assms(1,2,3,5)] assms(4)
    by (simp add: cas1_result_long)
  show "go_slice (''yes\<newline>'' @ name @ ''\<newline>'') 4
              (int (length (''yes\<newline>'' @ name @ ''\<newline>'')) - 1) = Some name"
    by (rule go_slice_positive)
qed

theorem cas1_positive_marker_witness:
  "fst (validateTicketCas1 double_env (double_validator 200 200 ''yes\<newline>alice\<newline>'') (Ref 1) ''ST-1''
          double_net) = Return (Some \<lparr>User = ''alice'', Attributes = None\<rparr>, None)"
proof -
  have body: "Body \<lparr>StatusCode = 200, Body = (''yes\<newline>alice\<newline>'', None)\<rparr>
                = (''yes\<newline>'' @ ''alice'' @ ''\<newline>'', None)"
    by simp
  show ?thesis
    using cas1_positive_marker [OF double_ValidateUrl double_NewRequest double_client_cas1 _ body]
    by simp
qed

text \<open>
  Claim C2, as the code has it. The claim says that a body with status 200 that is
  neither \<open>"no\n\n"\<close> nor of the shape \<open>"yes\n<username>\n"\<close> gives a parse error. The
  body \<open>"maybe\n"\<close> is neither, and the result is a success with user \<open>"e"\<close>.
\<close>

theorem cas1_other_body_counterexample:
  "take 4 ''maybe\<newline>'' \<noteq> ''yes\<newline>'' \<and> ''maybe\<newline>'' \<noteq> ''no\<newline>\<newline>''
   \<and> fst (validateTicketCas1 double_env (double_validator 200 200 ''maybe\<newline>'') (Ref 1) ''ST-1''
          double_net) = Return (Some \<lparr>User = ''e'', Attributes = None\<rparr>, None)"
  using cas1_reached [OF double_ValidateUrl double_NewRequest double_client_cas1,
      where a1 = 200 and b1 = 200 and body1 = "''maybe\<newline>''"]
  by (simp add: cas1_result_long)

text \<open>
  Claim C2, amended. In the CAS1 fallback, every response with status 200 whose body has
  at least 5 bytes, whatever its first four bytes and its last byte are, yields an
  AuthenticationResponse whose \<open>User\<close> is \<open>body[4 : len(body)-1]\<close>, without
  attributes and without error.
\<close>

theorem cas1_any_long_body:
  assumes "ValidateUrl E v serviceURL ticket s = (Return (u, None), s1)"
    and "http_NewRequest E ''GET'' u = Inr r0"
    and "client v (sent s1) (Header_Add ''User-Agent'' ''Golang CAS client gopkg.in/cas'' r0) = Inr resp"
    and "StatusCode resp = 200"
    and "Body resp = (body, None)"
    and "5 \<le> length body"
  shows "fst (validateTicketCas1 E v serviceURL ticket s) =
           Return (Some \<lparr>User = take (length body - 5) (drop 4 body), Attributes = None\<rparr>, None)"
  using cas1_reached [OF assms(1,2,3,5)] assms(4,6)
  by (simp add: cas1_result_long)

theorem cas1_any_long_body_witness:
  "fst (validateTicketCas1 double_env (double_validator 200 200 ''unauthorized'') (Ref 1) ''ST-1''
          double_net) = Return (Some \<lparr>User = ''thorize'', Attributes = None\<rparr>, None)"
  using cas1_any_long_body [OF double_ValidateUrl double_NewRequest double_client_cas1,
      where a1 = 200 and b1 = 200 and body1 = "''unauthorized''"]
  by simp

text \<open>
  Claim C3. The claim says that the slice \<open>body[4 : len(body)-1]\<close> is within bounds for
  every body other than \<open>"no\n\n"\<close>. For the body \<open>"no\n"\<close> of a response with status
  200 the upper index is 2, below the lower index 4, and \<open>validateTicketCas1\<close> panics.
\<close>

theorem cas1_short_body_panics:
  "fst (validateTicketCas1 double_env (double_validator 200 200 ''no\<newline>'') (Ref 1) ''ST-1''
          double_net) = Panic SliceBoundsOutOfRange"
  using cas1_reached [OF double_ValidateUrl double_NewRequest double_client_cas1,
      where a1 = 200 and b1 = 200 and body1 = "''no\<newline>''"]
  by (simp add: cas1_result_short)

section \<open>The URL builders\<close>

text \<open>
  Either builder leaves the store as it is or adds one URL object to it, and touches
  nothing else of the state.
\<close>

lemma ServiceValidateUrl_store:
  "snd (ServiceValidateUrl E v serviceURL ticket s) = s
   \<or> (\<exists>u. snd (ServiceValidateUrl E v serviceURL ticket s) = s\<lparr>urls := urls s @ [u]\<rparr>)"
  unfolding ServiceValidateUrl_def new_URL_def set_RawQuery_def deref_def
  by (auto split: option.splits sum.splits go.splits ptr.splits if_splits)

lemma ValidateUrl_store:
  "snd (ValidateUrl E v serviceURL ticket s) = s
   \<or> (\<exists>u. snd (ValidateUrl E v serviceURL ticket s) = s\<lparr>urls := urls s @ [u]\<rparr>)"
  unfolding ValidateUrl_def new_URL_def set_RawQuery_def deref_def
  by (auto split: option.splits sum.splits go.splits ptr.splits if_splits)

lemma ServiceValidateUrl_sent:
  "ServiceValidateUrl E v serviceURL ticket s = (res, s1) \<Longrightarrow> sent s1 = sent s \<and> parsed s1 = parsed s"
  using ServiceValidateUrl_store [of E v serviceURL ticket s] by auto

lemma ValidateUrl_sent:
  "ValidateUrl E v serviceURL ticket s = (res, s1) \<Longrightarrow> sent s1 = sent s \<and> parsed s1 = parsed s"
  using ValidateUrl_store [of E v serviceURL ticket s] by auto

lemma deref_extended:
  "allocated s p \<Longrightarrow> deref (s\<lparr>urls := urls s @ us\<rparr>) p = deref s p"
  by (cases p) (auto simp: allocated_def deref_def nth_append)

lemma ServiceValidateUrl_keeps:
  assumes "allocated s p"
  shows "deref (snd (ServiceValidateUrl E v serviceURL ticket s)) p = deref s p"
  using ServiceValidateUrl_store [of E v serviceURL ticket s] deref_extended [OF assms]
  by auto

lemma ValidateUrl_keeps:
  assumes "allocated s p"
  shows "deref (snd (ValidateUrl E v serviceURL ticket s)) p = deref s p"
  using ValidateUrl_store [of E v serviceURL ticket s] deref_extended [OF assms]
  by auto

lemma double_allocated:
  "allocated double_net (casURL (double_validator a b body))" "allocated double_net (Ref 1)"
  by (simp_all add: allocated_def double_net_def double_validator_def)

text \<open>
  Claim C10. \<open>ServiceValidateUrl\<close> and \<open>ValidateUrl\<close> leave their inputs as they are: after
  either call the URL object that the validator's \<open>casURL\<close> points to and the one that
  the given \<open>serviceURL\<close> points to are what they were before. The query is set on the
  object that \<open>casURL.Parse\<close> has newly made. (The validator itself is not assigned to;
  \<open>sanitisedURLString\<close>, which is not among the source files, is taken to read its
  argument only.)
\<close>

theorem url_builders_leave_inputs:
  assumes "allocated s (casURL v)" and "allocated s serviceURL"
  shows "deref (snd (ServiceValidateUrl E v serviceURL ticket s)) (casURL v) = deref s (casURL v)
       \<and> deref (snd (ServiceValidateUrl E v serviceURL ticket s)) serviceURL = deref s serviceURL
       \<and> deref (snd (ValidateUrl E v serviceURL ticket s)) (casURL v) = deref s (casURL v)
       \<and> deref (snd (ValidateUrl E v serviceURL ticket s)) serviceURL = deref s serviceURL"
  using assms by (simp add: ServiceValidateUrl_keeps ValidateUrl_keeps)

theorem url_builders_leave_inputs_witness:
  "deref (snd (ServiceValidateUrl double_env (double_validator 404 200 '''') (Ref 1) ''ST-1'' double_net))
     (Ref 0) = Some (plain_URL ''cas.example'' ''/cas'')
   \<and> deref (snd (ServiceValidateUrl double_env (double_validator 404 200 '''') (Ref 1) ''ST-1'' double_net))
     (Ref 1) = Some (plain_URL ''app.example'' ''/home'')
   \<and> deref (snd (ValidateUrl double_env (double_validator 404 200 '''') (Ref 1) ''ST-1'' double_net))
     (Ref 0) = Some (plain_URL ''cas.example'' ''/cas'')
   \<and> deref (snd (ValidateUrl double_env (double_validator 404 200 '''') (Ref 1) ''ST-1'' double_net))
     (Ref 1) = Some (plain_URL ''app.example'' ''/home'')"
proof -
  have a: "allocated double_net (casURL (double_validator 404 200 ''''))"
    and b: "allocated double_net (Ref 1)"
    by (rule double_allocated)+
  show ?thesis
    using url_builders_leave_inputs [OF a b, where E = double_env and ticket = "''ST-1''"]
    by (simp add: double_validator_def deref_def double_net_def)
qed

text \<open>
  When the URL library resolves the CAS URL \<open>base\<close>, with the joined path
  \<open>path.Join(base.Path, e)\<close>, to a URL \<open>rest\<close> with path \<open>dir @ e\<close>, for both
  \<open>e = "serviceValidate"\<close> and \<open>e = "validate"\<close>, the two builders return the renderings
  of two URLs that differ in the last segment of the path only; both have the same
  query, encoded from the same values, in which the last value of \<open>service\<close> is
  \<open>sanitisedURLString\<close> of the service URL.
\<close>

lemma validation_urls_same_query:
  assumes "deref s (casURL v) = Some base"
    and "deref s serviceURL = Some svc"
    and "url_Parse E base (path_Join E [Path base, ''serviceValidate'']) =
           Inr (rest\<lparr>Path := dir @ ''serviceValidate''\<rparr>)"
    and "url_Parse E base (path_Join E [Path base, ''validate'']) =
           Inr (rest\<lparr>Path := dir @ ''validate''\<rparr>)"
  shows "fst (ServiceValidateUrl E v serviceURL ticket s) =
           Return (url_String E (rest\<lparr>Path := dir @ ''serviceValidate'',
              RawQuery := values_Encode E (Values_Add ''ticket'' ticket
                (Values_Add ''service'' (sanitisedURLString E svc) (url_ParseQuery E (RawQuery rest))))\<rparr>), None)
       \<and> fst (ValidateUrl E v serviceURL ticket s) =
           Return (url_String E (rest\<lparr>Path := dir @ ''validate'',
              RawQuery := values_Encode E (Values_Add ''ticket'' ticket
                (Values_Add ''service'' (sanitisedURLString E svc) (url_ParseQuery E (RawQuery rest))))\<rparr>), None)
       \<and> (\<exists>before. Values_Add ''ticket'' ticket
                (Values_Add ''service'' (sanitisedURLString E svc) (url_ParseQuery E (RawQuery rest)))
                ''service'' = Some (before @ [sanitisedURLString E svc]))"
proof -
  have svc: "\<And>u. deref (s\<lparr>urls := urls s @ [u]\<rparr>) serviceURL = Some svc"
    using assms(2) by (cases serviceURL) (auto simp: deref_def nth_append split: if_splits)
  show ?thesis
    using assms(1,3,4) svc
    by (simp add: ServiceValidateUrl_def ValidateUrl_def new_URL_def set_RawQuery_def deref_def
        Values_Add_def)
qed

lemma validation_urls_same_query_double:
  "fst (ServiceValidateUrl double_env (double_validator 404 200 '''') (Ref 1) ''ST-1'' double_net) =
     Return (''https://cas.example/cas/serviceValidate?service=https://app.example/home&ticket=ST-1'', None)
   \<and> fst (ValidateUrl double_env (double_validator 404 200 '''') (Ref 1) ''ST-1'' double_net) =
     Return (''https://cas.example/cas/validate?service=https://app.example/home&ticket=ST-1'', None)"
proof -
  have a: "deref double_net (casURL (double_validator 404 200 '''')) = Some (plain_URL ''cas.example'' ''/cas'')"
    by (simp add: deref_def double_net_def double_validator_def)
  have b: "deref double_net (Ref 1) = Some (plain_URL ''app.example'' ''/home'')"
    by (simp add: deref_def double_net_def)
  have c: "url_Parse double_env (plain_URL ''cas.example'' ''/cas'')
             (path_Join double_env [Path (plain_URL ''cas.example'' ''/cas''), ''serviceValidate'']) =
           Inr ((plain_URL ''cas.example'' ''/cas'')\<lparr>Path := ''/cas/'' @ ''serviceValidate''\<rparr>)"
    by (simp add: double_env_def plain_URL_def)
  have d: "url_Parse double_env (plain_URL ''cas.example'' ''/cas'')
             (path_Join double_env [Path (plain_URL ''cas.example'' ''/cas''), ''validate'']) =
           Inr ((plain_URL ''cas.example'' ''/cas'')\<lparr>Path := ''/cas/'' @ ''validate''\<rparr>)"
    by (simp add: double_env_def plain_URL_def)
  show ?thesis
    using validation_urls_same_query [OF a b c d, where ticket = "''ST-1''"]
    by (simp add: double_env_def plain_URL_def Values_Add_def double_Encode_def)
qed

text \<open>
  Claim C8. The claim says that, for every service URL and ticket, the URLs that
  \<open>ServiceValidateUrl\<close> and \<open>ValidateUrl\<close> build differ in the final path segment only.
  Both hand \<open>path.Join(casURL.Path, ...)\<close>, the decoded path, to \<open>casURL.Parse\<close> as a
  URL reference. For a CAS URL with path \<open>/cas?x=1\<close> the reference is cut at the question
  mark: both built URLs have the path \<open>/cas\<close>, the names \<open>serviceValidate\<close> and
  \<open>validate\<close> end up in the value of the query parameter \<open>x\<close>, and the two URLs differ
  in the query, not in the path.
\<close>

theorem validation_urls_differ_in_query:
  "fst (ServiceValidateUrl cut_env (double_validator 404 200 '''') (Ref 1) ''ST-1'' cut_net) =
     Return (''https://cas.example/cas?service=https%3A%2F%2Fapp.example%2Fhome&ticket=ST-1&x=1%2FserviceValidate'',
             None)
   \<and> fst (ValidateUrl cut_env (double_validator 404 200 '''') (Ref 1) ''ST-1'' cut_net) =
     Return (''https://cas.example/cas?service=https%3A%2F%2Fapp.example%2Fhome&ticket=ST-1&x=1%2Fvalidate'',
             None)
   \<and> map_option Path
         (deref (snd (ServiceValidateUrl cut_env (double_validator 404 200 '''') (Ref 1) ''ST-1'' cut_net))
            (Ref 2)) = Some ''/cas''
   \<and> map_option Path
         (deref (snd (ValidateUrl cut_env (double_validator 404 200 '''') (Ref 1) ''ST-1'' cut_net))
            (Ref 2)) = Some ''/cas''"
  by (simp add: ServiceValidateUrl_def ValidateUrl_def cut_env_def double_env_def double_validator_def
      cut_net_def deref_def new_URL_def set_RawQuery_def Values_Add_def query_pairs_def cut_escape_def
      plain_URL_def)

section \<open>The CAS2 attempt and the fallback\<close>

lemma validateTicketCas1_sent:
  "sent (snd (validateTicketCas1 E v serviceURL ticket s)) = sent s
   \<or> (\<exists>r. sent (snd (validateTicketCas1 E v serviceURL ticket s)) = sent s @ [r])"
proof -
  obtain res s1 where vu: "ValidateUrl E v serviceURL ticket s = (res, s1)"
    by fastforce
  have "sent s1 = sent s"
    using ValidateUrl_sent [OF vu] by simp
  then show ?thesis
    unfolding validateTicketCas1_def client_Do_def
    by (auto simp: vu split: go.splits option.splits sum.splits prod.splits)
qed

lemma validateTicketCas1_parsed:
  "parsed (snd (validateTicketCas1 E v serviceURL ticket s)) = parsed s"
proof -
  obtain res s1 where vu: "ValidateUrl E v serviceURL ticket s = (res, s1)"
    by fastforce
  have "parsed s1 = parsed s"
    using ValidateUrl_sent [OF vu] by simp
  then show ?thesis
    unfolding validateTicketCas1_def client_Do_def
    by (auto simp: vu split: go.splits option.splits sum.splits prod.splits)
qed

lemma cas2_reached:
  assumes "ServiceValidateUrl E v serviceURL ticket s = (Return (u, None), s1)"
    and "http_NewRequest E ''GET'' u = Inr r0"
    and "client v (sent s1) (Header_Add ''User-Agent'' ''Golang CAS client gopkg.in/cas'' r0) = Inr resp"
  shows "ValidateTicket E v serviceURL ticket s =
     (if StatusCode resp = StatusNotFound
      then validateTicketCas1 E v serviceURL ticket
             (s1\<lparr>sent := sent s1 @ [Header_Add ''User-Agent'' ''Golang CAS client gopkg.in/cas'' r0]\<rparr>)
      else (case Body resp of
              (body, Some err) \<Rightarrow>
                (Return (None, Some err),
                 s1\<lparr>sent := sent s1 @ [Header_Add ''User-Agent'' ''Golang CAS client gopkg.in/cas'' r0]\<rparr>)
            | (body, None) \<Rightarrow>
                if StatusCode resp \<noteq> StatusOK
                then (Return (None, Some (GoError (''cas: validate ticket: '' @ body))),
                      s1\<lparr>sent := sent s1 @ [Header_Add ''User-Agent'' ''Golang CAS client gopkg.in/cas'' r0]\<rparr>)
                else (case call_ParseServiceResponse E body
                             (s1\<lparr>sent := sent s1 @ [Header_Add ''User-Agent'' ''Golang CAS client gopkg.in/cas'' r0]\<rparr>) of
                        ((success, Some err), s3) \<Rightarrow> (Return (None, Some err), s3)
                      | ((success, None), s3) \<Rightarrow> (Return (success, None), s3))))"
  using assms by (simp add: ValidateTicket_def client_Do_def)

lemma ValidateTicket_sent:
  "\<exists>reqs. sent (snd (ValidateTicket E v serviceURL ticket s)) = sent s @ reqs
      \<and> length reqs \<le> 2
      \<and> (length reqs = 2 \<longrightarrow>
           (\<exists>resp. client v (sent s) (hd reqs) = Inr resp \<and> StatusCode resp = StatusNotFound))"
proof -
  obtain res s1 where vu: "ServiceValidateUrl E v serviceURL ticket s = (res, s1)"
    by fastforce
  have s1: "sent s1 = sent s"
    using ServiceValidateUrl_sent [OF vu] by simp
  have none: "sent (snd (ValidateTicket E v serviceURL ticket s)) = sent s \<Longrightarrow> ?thesis"
    by (rule exI [of _ "[]"]) simp
  have one: "\<And>r. sent (snd (ValidateTicket E v serviceURL ticket s)) = sent s @ [r] \<Longrightarrow> ?thesis"
    subgoal for r by (rule exI [of _ "[r]"]) simp
    done
  show ?thesis
  proof (cases res)
    case (Panic p)
    then show ?thesis using vu s1 by (intro none) (simp add: ValidateTicket_def)
  next
    case (Return ue)
    obtain u e where ue: "ue = (u, e)" by fastforce
    show ?thesis
    proof (cases e)
      case (Some err)
      then show ?thesis using vu s1 Return ue by (intro none) (simp add: ValidateTicket_def)
    next
      case None
      note vu' = vu [unfolded Return ue None]
      show ?thesis
      proof (cases "http_NewRequest E ''GET'' u")
        case (Inl err)
        then show ?thesis using vu' s1 by (intro none) (simp add: ValidateTicket_def)
      next
        case (Inr r0)
        let ?r = "Header_Add ''User-Agent'' ''Golang CAS client gopkg.in/cas'' r0"
        let ?s2 = "s1\<lparr>sent := sent s1 @ [?r]\<rparr>"
        show ?thesis
        proof (cases "client v (sent s1) ?r")
          case (Inl err)
          then show ?thesis using vu' s1 Inr
            by (intro one [of ?r]) (simp add: ValidateTicket_def client_Do_def)
        next
          case (Inr resp)
          note vt = cas2_reached [OF vu' \<open>http_NewRequest E ''GET'' u = Inr r0\<close> Inr]
          show ?thesis
          proof (cases "StatusCode resp = StatusNotFound")
            case True
            then have vt': "ValidateTicket E v serviceURL ticket s = validateTicketCas1 E v serviceURL ticket ?s2"
              using vt by simp
            from validateTicketCas1_sent [of E v serviceURL ticket ?s2]
            show ?thesis
            proof
              assume "sent (snd (validateTicketCas1 E v serviceURL ticket ?s2)) = sent ?s2"
              then show ?thesis using vt' s1 by (intro one [of ?r]) simp
            next
              assume "\<exists>r. sent (snd (validateTicketCas1 E v serviceURL ticket ?s2)) = sent ?s2 @ [r]"
              then obtain r1 where "sent (snd (validateTicketCas1 E v serviceURL ticket ?s2)) = sent ?s2 @ [r1]"
                by blast
              then have "sent (snd (ValidateTicket E v serviceURL ticket s)) = sent s @ [?r, r1]"
                using vt' s1 by simp
              moreover have "client v (sent s) (hd [?r, r1]) = Inr resp"
                using Inr s1 by simp
              ultimately show ?thesis using True
                by (intro exI [of _ "[?r, r1]"]) simp
            qed
          next
            case False
            then show ?thesis using vt s1
              by (intro one [of ?r])
                (auto simp: call_ParseServiceResponse_def split: prod.splits option.splits)
          qed
        qed
      qed
    qed
  qed
qed

text \<open>
  Claim C7. When the response to the CAS2 \<open>serviceValidate\<close> request has a status that is
  neither 200 nor 404, and its body is read as \<open>body\<close>, \<open>ValidateTicket\<close> returns the error
  \<open>"cas: validate ticket: " + body\<close>; the CAS2 request is the only request sent, and the
  response parser is not called.
\<close>

theorem cas2_other_status_is_error:
  assumes "ServiceValidateUrl E v serviceURL ticket s = (Return (u, None), s1)"
    and "http_NewRequest E ''GET'' u = Inr r0"
    and "client v (sent s1) (Header_Add ''User-Agent'' ''Golang CAS client gopkg.in/cas'' r0) = Inr resp"
    and "StatusCode resp \<noteq> 200"
    and "StatusCode resp \<noteq> 404"
    and "Body resp = (body, None)"
  shows "fst (ValidateTicket E v serviceURL ticket s) =
           Return (None, Some (GoError (''cas: validate ticket: '' @ body)))
         \<and> sent (snd (ValidateTicket E v serviceURL ticket s)) =
             sent s @ [Header_Add ''User-Agent'' ''Golang CAS client gopkg.in/cas'' r0]
         \<and> parsed (snd (ValidateTicket E v serviceURL ticket s)) = parsed s"
  using cas2_reached [OF assms(1,2,3)] assms(4,5,6) ServiceValidateUrl_sent [OF assms(1)]
  by (simp add: StatusOK_def StatusNotFound_def)

theorem cas2_other_status_is_error_witness:
  "fst (ValidateTicket double_env (double_validator 500 200 ''down'') (Ref 1) ''ST-1'' double_net) =
     Return (None, Some (GoError ''cas: validate ticket: down''))
   \<and> sent (snd (ValidateTicket double_env (double_validator 500 200 ''down'') (Ref 1) ''ST-1'' double_net)) =
       [\<lparr>Method = ''GET'',
         Target = ''https://cas.example/cas/serviceValidate?service=https://app.example/home&ticket=ST-1'',
         Header = [(''User-Agent'', ''Golang CAS client gopkg.in/cas'')]\<rparr>]
   \<and> parsed (snd (ValidateTicket double_env (double_validator 500 200 ''down'') (Ref 1) ''ST-1'' double_net)) = []"
  using cas2_other_status_is_error [OF double_ServiceValidateUrl double_NewRequest double_client_cas1,
      where a1 = 500 and b1 = 200 and body1 = "''down''"]
  by (simp add: Header_Add_def double_net_def)

text \<open>
  Claim C6. For every service URL and ticket: when the CAS2 \<open>serviceValidate\<close> request is
  answered with status 404, and the CAS1 URL can be built and its request made,
  \<open>ValidateTicket\<close> sends exactly one more request, a GET to the URL that \<open>ValidateUrl\<close>
  builds from the same service URL and ticket. Whatever happens, at most two requests
  are sent, and a second one only after the first was answered with status 404.
\<close>

theorem cas2_not_found_falls_back_once:
  "(\<forall>u2 s1 r2 resp u1 s3 r1.
      ServiceValidateUrl E v serviceURL ticket s = (Return (u2, None), s1) \<longrightarrow>
      http_NewRequest E ''GET'' u2 = Inr r2 \<longrightarrow>
      client v (sent s1) (Header_Add ''User-Agent'' ''Golang CAS client gopkg.in/cas'' r2) = Inr resp \<longrightarrow>
      StatusCode resp = 404 \<longrightarrow>
      ValidateUrl E v serviceURL ticket
        (s1\<lparr>sent := sent s1 @ [Header_Add ''User-Agent'' ''Golang CAS client gopkg.in/cas'' r2]\<rparr>) =
        (Return (u1, None), s3) \<longrightarrow>
      http_NewRequest E ''GET'' u1 = Inr r1 \<longrightarrow>
      sent (snd (ValidateTicket E v serviceURL ticket s)) =
        sent s @ [Header_Add ''User-Agent'' ''Golang CAS client gopkg.in/cas'' r2,
                  Header_Add ''User-Agent'' ''Golang CAS client gopkg.in/cas'' r1]
      \<and> Method r1 = ''GET'' \<and> Target r1 = u1)
   \<and> (\<exists>reqs. sent (snd (ValidateTicket E v serviceURL ticket s)) = sent s @ reqs
         \<and> length reqs \<le> 2
         \<and> (length reqs = 2 \<longrightarrow>
              (\<exists>resp. client v (sent s) (hd reqs) = Inr resp \<and> StatusCode resp = 404)))"
proof (intro conjI allI impI)
  fix u2 s1 r2 resp u1 s3 r1
  let ?r2 = "Header_Add ''User-Agent'' ''Golang CAS client gopkg.in/cas'' r2"
  let ?r1 = "Header_Add ''User-Agent'' ''Golang CAS client gopkg.in/cas'' r1"
  assume a: "ServiceValidateUrl E v serviceURL ticket s = (Return (u2, None), s1)"
    and b: "http_NewRequest E ''GET'' u2 = Inr r2"
    and c: "client v (sent s1) ?r2 = Inr resp"
    and d: "StatusCode resp = 404"
    and e: "ValidateUrl E v serviceURL ticket (s1\<lparr>sent := sent s1 @ [?r2]\<rparr>) = (Return (u1, None), s3)"
    and f: "http_NewRequest E ''GET'' u1 = Inr r1"
  have vt: "ValidateTicket E v serviceURL ticket s =
              validateTicketCas1 E v serviceURL ticket (s1\<lparr>sent := sent s1 @ [?r2]\<rparr>)"
    using cas2_reached [OF a b c] d by (simp add: StatusNotFound_def)
  have s3: "sent s3 = sent s @ [?r2]"
    using ValidateUrl_sent [OF e] ServiceValidateUrl_sent [OF a] by simp
  have "sent (snd (validateTicketCas1 E v serviceURL ticket (s1\<lparr>sent := sent s1 @ [?r2]\<rparr>))) =
          sent s3 @ [?r1]"
    using e f
    by (auto simp: validateTicketCas1_def client_Do_def split: sum.splits prod.splits option.splits)
  then show "sent (snd (ValidateTicket E v serviceURL ticket s)) = sent s @ [?r2, ?r1]"
    using vt s3 by simp
  show "Method r1 = ''GET''" "Target r1 = u1"
    using f by (auto simp: http_NewRequest_def split: option.splits)
next
  show "\<exists>reqs. sent (snd (ValidateTicket E v serviceURL ticket s)) = sent s @ reqs
         \<and> length reqs \<le> 2
         \<and> (length reqs = 2 \<longrightarrow>
              (\<exists>resp. client v (sent s) (hd reqs) = Inr resp \<and> StatusCode resp = 404))"
    using ValidateTicket_sent [of E v serviceURL ticket s] by (simp add: StatusNotFound_def)
qed

theorem cas2_not_found_falls_back_once_witness:
  "sent (snd (ValidateTicket double_env (double_validator 404 200 ''no\<newline>\<newline>'') (Ref 1) ''ST-1''
       double_net)) =
     [\<lparr>Method = ''GET'',
       Target = ''https://cas.example/cas/serviceValidate?service=https://app.example/home&ticket=ST-1'',
       Header = [(''User-Agent'', ''Golang CAS client gopkg.in/cas'')]\<rparr>,
      \<lparr>Method = ''GET'',
       Target = ''https://cas.example/cas/validate?service=https://app.example/home&ticket=ST-1'',
       Header = [(''User-Agent'', ''Golang CAS client gopkg.in/cas'')]\<rparr>]"
proof -
  have st: "StatusCode \<lparr>StatusCode = 404, Body = (''no\<newline>\<newline>'', None)\<rparr> = 404"
    by simp
  show ?thesis
    using cas2_not_found_falls_back_once [THEN conjunct1, rule_format,
        OF double_ServiceValidateUrl double_NewRequest double_client_cas1 st
           double_ValidateUrl_later double_NewRequest]
    by (simp add: Header_Add_def double_net_def)
qed

section \<open>The handler\<close>

lemma challenge_text:
  "challenge = ''Basic realm='' @ [CHR 0x22] @ ''CAS Protected Area'' @ [CHR 0x22]"
  by (simp add: challenge_def)

text \<open>
  Claim C9. For every request without Basic Authentication credentials (no
  \<open>Authorization\<close> header, or one that does not decode), \<open>ServeHTTP\<close> sets the header
  \<open>WWW-Authenticate\<close> to \<open>Basic realm="CAS Protected Area"\<close> (the two quotation marks
  are the characters \<open>0x22\<close>) and writes status 401; the wrapped handler is not called,
  no stage of the chain is called and the validator's state is untouched.
\<close>

theorem no_credentials_401:
  assumes "Authorization r = '''' \<or> \<not> snd (snd (parseBasicAuth E (Authorization r)))"
  shows "fst (ServeHTTP E ch r w) = Return ()
       \<and> written (snd (ServeHTTP E ch r w)) =
           written w @ [HeaderSet ''WWW-Authenticate''
                          (''Basic realm='' @ [CHR 0x22] @ ''CAS Protected Area'' @ [CHR 0x22]),
                        WriteHeaderCall 401]
       \<and> delegated (snd (ServeHTTP E ch r w)) = delegated w
       \<and> stages (snd (ServeHTTP E ch r w)) = stages w
       \<and> network (snd (ServeHTTP E ch r w)) = network w"
  using assms
  by (auto simp: ServeHTTP_def BasicAuth_def respond_401_def challenge_def split: prod.splits)

theorem no_credentials_401_witness:
  "written (snd (ServeHTTP double_env (double_handler ''yes\<newline>alice\<newline>'') (double_request '''')
       double_world)) =
     [HeaderSet ''WWW-Authenticate''
        (''Basic realm='' @ [CHR 0x22] @ ''CAS Protected Area'' @ [CHR 0x22]),
      WriteHeaderCall 401]
   \<and> delegated (snd (ServeHTTP double_env (double_handler ''yes\<newline>alice\<newline>'') (double_request '''')
       double_world)) = []
   \<and> stages (snd (ServeHTTP double_env (double_handler ''yes\<newline>alice\<newline>'') (double_request '''')
       double_world)) = []"
proof -
  have a: "Authorization (double_request '''') = ''''
           \<or> \<not> snd (snd (parseBasicAuth double_env (Authorization (double_request ''''))))"
    by (simp add: double_request_def)
  show ?thesis
    using no_credentials_401 [OF a, of "double_handler ''yes\<newline>alice\<newline>''" double_world]
    by (simp add: double_world_def)
qed

text \<open>
  When a stage of the chain returns an error, the handler answers 401 with the challenge
  and does not call the wrapped handler.
\<close>

lemma ServeHTTP_error_401:
  assumes "BasicAuth E r = (username, password, True)"
    and "authenticate ch username password w = (Return (a, Some err), w1)"
  shows "ServeHTTP E ch r w = (Return (), respond_401 w1)"
  using assms by (simp add: ServeHTTP_def)

lemma authenticate_delegated:
  "delegated (snd (authenticate ch username password w)) = delegated w
   \<and> written (snd (authenticate ch username password w)) = written w"
  by (auto simp: authenticate_def call_RequestGrantingTicket_def call_RequestServiceTicket_def
      call_ValidateServiceTicket_def split: prod.splits go.splits option.splits)

lemma ServeHTTP_error_never_delegates:
  assumes "BasicAuth E r = (username, password, True)"
    and "fst (authenticate ch username password w) = Return (a, Some err)"
  shows "fst (ServeHTTP E ch r w) = Return ()
       \<and> written (snd (ServeHTTP E ch r w)) =
           written w @ [HeaderSet ''WWW-Authenticate'' challenge, WriteHeaderCall 401]
       \<and> delegated (snd (ServeHTTP E ch r w)) = delegated w"
proof -
  obtain w1 where au: "authenticate ch username password w = (Return (a, Some err), w1)"
    using assms(2) by (cases "authenticate ch username password w") simp
  have "delegated w1 = delegated w" "written w1 = written w"
    using authenticate_delegated [of ch username password w] au by simp_all
  then show ?thesis
    using ServeHTTP_error_401 [OF assms(1) au] by (simp add: respond_401_def)
qed

lemma double_ValidateTicket_no:
  "fst (ValidateTicket double_env (double_validator 404 200 ''no\<newline>\<newline>'') (Ref 1) ''ST-1'' double_net) =
     Return (None, None)"
proof -
  let ?v = "double_validator 404 200 ''no\<newline>\<newline>''"
  let ?ua = "Header_Add ''User-Agent'' ''Golang CAS client gopkg.in/cas''"
  have second: "\<And>us r q. client ?v (sent (double_net\<lparr>urls := us, sent := [q]\<rparr>)) r =
                  Inr \<lparr>StatusCode = 200, Body = (''no\<newline>\<newline>'', None)\<rparr>"
    by (simp add: double_validator_def)
  have "ValidateTicket double_env ?v (Ref 1) ''ST-1'' double_net =
          validateTicketCas1 double_env ?v (Ref 1) ''ST-1''
            (double_net\<lparr>urls := urls double_net @
                [(plain_URL ''cas.example'' ''/cas/serviceValidate'')
                   \<lparr>RawQuery := ''service=https://app.example/home&ticket=ST-1''\<rparr>],
              sent := [?ua \<lparr>Method = ''GET'',
                 Target = ''https://cas.example/cas/serviceValidate?service=https://app.example/home&ticket=ST-1'',
                 Header = []\<rparr>]\<rparr>)"
    using cas2_reached [OF double_ServiceValidateUrl double_NewRequest double_client_cas1,
        where a1 = 404 and b1 = 200 and body1 = "''no\<newline>\<newline>''"]
    by (simp add: StatusNotFound_def double_net_def)
  moreover have "fst (validateTicketCas1 double_env ?v (Ref 1) ''ST-1''
            (double_net\<lparr>urls := urls double_net @
                [(plain_URL ''cas.example'' ''/cas/serviceValidate'')
                   \<lparr>RawQuery := ''service=https://app.example/home&ticket=ST-1''\<rparr>],
              sent := [?ua \<lparr>Method = ''GET'',
                 Target = ''https://cas.example/cas/serviceValidate?service=https://app.example/home&ticket=ST-1'',
                 Header = []\<rparr>]\<rparr>)) = Return (None, None)"
    using cas1_reached [OF double_ValidateUrl_later double_NewRequest second]
    by (simp add: cas1_result_def StatusOK_def)
  ultimately show ?thesis by simp
qed

text \<open>
  Claim C1. The claim says that \<open>ServeHTTP\<close> answers 401 and never calls the wrapped
  handler when a stage returns an error or the validator returns the NotAuthenticated
  outcome. For a request with credentials, a CAS2 endpoint that answers 404 and a CAS1
  endpoint that answers 200 with body \<open>"no\n\n"\<close>, the validator returns neither a
  response nor an error, and \<open>ServeHTTP\<close> attaches the \<open>nil\<close> response to the request and
  calls the wrapped handler; no 401 is written.
\<close>

theorem not_authenticated_is_forwarded:
  "fst (ServeHTTP double_env (double_handler ''no\<newline>\<newline>'') (double_request ''Basic YWxpY2U6c2VjcmV0'')
       double_world) = Return ()
   \<and> delegated (snd (ServeHTTP double_env (double_handler ''no\<newline>\<newline>'')
       (double_request ''Basic YWxpY2U6c2VjcmV0'') double_world)) =
       [(double_request ''Basic YWxpY2U6c2VjcmV0'')\<lparr>Context := Some None\<rparr>]
   \<and> written (snd (ServeHTTP double_env (double_handler ''no\<newline>\<newline>'')
       (double_request ''Basic YWxpY2U6c2VjcmV0'') double_world)) = [WriteHeaderCall 200]"
proof -
  obtain n where vt:
    "ValidateTicket double_env (double_validator 404 200 ''no\<newline>\<newline>'') (Ref 1) ''ST-1'' double_net =
       (Return (None, None), n)"
    using double_ValidateTicket_no
    by (cases "ValidateTicket double_env (double_validator 404 200 ''no\<newline>\<newline>'') (Ref 1) ''ST-1''
          double_net") simp
  have ba: "BasicAuth double_env (double_request ''Basic YWxpY2U6c2VjcmV0'') = (''alice'', ''secret'', True)"
    by (simp add: BasicAuth_def double_env_def double_request_def)
  have au: "authenticate (double_handler ''no\<newline>\<newline>'') ''alice'' ''secret'' double_world =
          (Return (None, None),
           double_world\<lparr>network := n,
             stages := [GrantingTicketStage ''alice'' ''secret'', ServiceTicketStage ''TGT-1'',
                        ValidationStage ''ST-1'']\<rparr>)"
    using vt
    by (simp add: authenticate_def call_RequestGrantingTicket_def call_RequestServiceTicket_def
        call_ValidateServiceTicket_def double_handler_def double_client_def double_world_def)
  have "ServeHTTP double_env (double_handler ''no\<newline>\<newline>'')
          (double_request ''Basic YWxpY2U6c2VjcmV0'') double_world =
        (Return (),
         serve_wrapped (double_handler ''no\<newline>\<newline>'')
           (setAuthenticationResponse (double_request ''Basic YWxpY2U6c2VjcmV0'') None)
           (double_world\<lparr>network := n,
              stages := [GrantingTicketStage ''alice'' ''secret'', ServiceTicketStage ''TGT-1'',
                         ValidationStage ''ST-1'']\<rparr>))"
    by (simp add: ServeHTTP_def ba au)
  then show ?thesis
    by (simp add: serve_wrapped_def setAuthenticationResponse_def double_handler_def double_world_def)
qed

end
